theory Spec2Isabelle
  imports Complex_Main
begin

section \<open>Text\<close>

text \<open>
  Python strings are modelled as \<open>string\<close>. \<open>str.strip()\<close> removes the characters for
  which \<open>str.isspace\<close> holds; in the ASCII range these are the codes 9 to 13 and 28 to 32.
\<close>

definition is_space :: "char \<Rightarrow> bool" where
  "is_space c = (let n = (of_char c :: nat) in (9 \<le> n \<and> n \<le> 13) \<or> (28 \<le> n \<and> n \<le> 32))"

definition strip :: "string \<Rightarrow> string" where
  "strip s = rev (dropWhile is_space (rev (dropWhile is_space s)))"

text \<open>\<open>sep.join(parts)\<close>\<close>

fun join :: "string \<Rightarrow> string list \<Rightarrow> string" where
  "join sep [] = []"
| "join sep [x] = x"
| "join sep (x # y # ys) = x @ sep @ join sep (y # ys)"

text \<open>\<open>s.startswith(p)\<close>, as used by the attribute selector \<open>[id^="..."]\<close>.\<close>

fun startswith :: "string \<Rightarrow> string \<Rightarrow> bool" where
  "startswith s [] = True"
| "startswith [] (p # ps) = False"
| "startswith (c # cs) (p # ps) = (c = p \<and> startswith cs ps)"

text \<open>\<open>needle in haystack\<close> on two strings (substring test).\<close>

fun contains :: "string \<Rightarrow> string \<Rightarrow> bool" where
  "contains [] needle = (needle = [])"
| "contains (c # cs) needle = (startswith (c # cs) needle \<or> contains cs needle)"

section \<open>The parsed document\<close>

text \<open>
  A BeautifulSoup tree: a node is a text string or a tag with its name, its \<open>id\<close>
  attribute, its \<open>class\<close> attribute (BeautifulSoup stores it as the list of class names;
  a tag without the attribute has the empty list), its \<open>href\<close> attribute and its
  contents. These are the only attributes the crawler reads.
\<close>

datatype node =
    Text string
  | Elem (tag: string) (ident: "string option") (classes: "string list")
         (href: "string option") (contents: "node list")

fun is_tag :: "node \<Rightarrow> bool" where
  "is_tag (Text s) = False"
| "is_tag (Elem t i c h ks) = True"

text \<open>
  An element is handled together with the chain of its ancestors, nearest first: a CSS
  selector with a descendant combinator looks at them.
\<close>

type_synonym loc = "node list \<times> node"

text \<open>\<open>Tag.descendants\<close>: every node below the given one, in document order.\<close>

fun descendants :: "node list \<Rightarrow> node \<Rightarrow> loc list" where
  "descendants ancs (Text s) = []"
| "descendants ancs (Elem t i c h ks) =
     concat (map (\<lambda>k. (Elem t i c h ks # ancs, k) # descendants (Elem t i c h ks # ancs) k) ks)"

text \<open>
  \<open>el.get_text(" ", strip=True)\<close>: the text strings below \<open>el\<close> in document order, each
  one stripped, the empty ones dropped, the rest joined by the separator.
\<close>

fun strings :: "node \<Rightarrow> string list" where
  "strings (Text s) = [s]"
| "strings (Elem t i c h ks) = concat (map strings ks)"

definition get_text :: "string \<Rightarrow> node \<Rightarrow> string" where
  "get_text sep el = join sep (filter (\<lambda>s. s \<noteq> []) (map strip (strings el)))"

subsection \<open>CSS selectors\<close>

text \<open>
  A compound selector: an optional tag name, the class names required, whether the
  \<open>href\<close> attribute must be present (\<open>[href]\<close>), and an optional prefix of the
  \<open>id\<close> attribute (\<open>[id^="..."]\<close>). A selector is a compound for the element itself,
  followed by the compounds its ancestors have to match going outwards (the descendant
  combinator, read from right to left).
\<close>

datatype compound =
  Compound (sel_tag: "string option") (sel_classes: "string list")
           (sel_href: bool) (sel_id_prefix: "string option")

type_synonym selector = "compound list"

fun match_compound :: "compound \<Rightarrow> node \<Rightarrow> bool" where
  "match_compound cp (Text s) = False"
| "match_compound cp (Elem t i c h ks) =
     ((case sel_tag cp of None \<Rightarrow> True | Some name \<Rightarrow> t = name)
      \<and> list_all (\<lambda>cl. cl \<in> set c) (sel_classes cp)
      \<and> (sel_href cp \<longrightarrow> h \<noteq> None)
      \<and> (case sel_id_prefix cp of None \<Rightarrow> True
          | Some p \<Rightarrow> (case i of None \<Rightarrow> False | Some v \<Rightarrow> startswith v p)))"

fun match_ancestors :: "compound list \<Rightarrow> node list \<Rightarrow> bool" where
  "match_ancestors [] ancs = True"
| "match_ancestors (cp # cps) [] = False"
| "match_ancestors (cp # cps) (a # ancs) =
     ((match_compound cp a \<and> match_ancestors cps ancs) \<or> match_ancestors (cp # cps) ancs)"

fun match_selector :: "selector \<Rightarrow> loc \<Rightarrow> bool" where
  "match_selector [] l = False"
| "match_selector (cp # cps) (ancs, n) = (match_compound cp n \<and> match_ancestors cps ancs)"

text \<open>\<open>el.select(sel)\<close> and \<open>el.select_one(sel)\<close>.\<close>

definition select :: "loc \<Rightarrow> selector \<Rightarrow> loc list" where
  "select el sel = filter (match_selector sel) (descendants (fst el) (snd el))"

definition select_one :: "loc \<Rightarrow> selector \<Rightarrow> loc option" where
  "select_one el sel = (case select el sel of [] \<Rightarrow> None | l # ls \<Rightarrow> Some l)"

text \<open>
  \<open>soup.find(id=v)\<close>, for a value \<open>v\<close> that is not empty: the first tag in document
  order whose \<open>id\<close> attribute is \<open>v\<close>.
\<close>

definition find_id :: "loc \<Rightarrow> string \<Rightarrow> loc option" where
  "find_id el v = List.find (\<lambda>l. is_tag (snd l) \<and> ident (snd l) = Some v)
                            (descendants (fst el) (snd el))"

text \<open>The selectors the crawler uses.\<close>

definition css_ul_prefix :: selector where
  \<comment> \<open>\<open>ul[id^="_SECTION_HEADLINE_LIST_"]\<close>\<close>
  "css_ul_prefix = [Compound (Some ''ul'') [] False (Some ''_SECTION_HEADLINE_LIST_'')]"

definition css_li_target :: selector where
  \<comment> \<open>\<open>li.sa_item._SECTION_HEADLINE\<close>\<close>
  "css_li_target = [Compound (Some ''li'') [''sa_item'', ''_SECTION_HEADLINE''] False None]"

definition css_a_title_href :: selector where
  \<comment> \<open>\<open>a.sa_text_title[href]\<close>\<close>
  "css_a_title_href = [Compound (Some ''a'') [''sa_text_title''] True None]"

definition css_a_href :: selector where
  \<comment> \<open>\<open>a[href]\<close>\<close>
  "css_a_href = [Compound (Some ''a'') [] True None]"

definition css_class :: "string \<Rightarrow> selector" where
  \<comment> \<open>\<open>.name\<close>\<close>
  "css_class name = [Compound None [name] False None]"

definition css_tag :: "string \<Rightarrow> selector" where
  \<comment> \<open>\<open>name\<close>\<close>
  "css_tag name = [Compound (Some name) [] False None]"

definition css_tag_in_class :: "string \<Rightarrow> string \<Rightarrow> selector" where
  \<comment> \<open>\<open>.cls name\<close>\<close>
  "css_tag_in_class cls name = [Compound (Some name) [] False None, Compound None [cls] False None]"

section \<open>The requests crawler\<close>

definition DEFAULT_SECTION_URL :: string where
  "DEFAULT_SECTION_URL = ''https://news.naver.com/section/101''"

definition DEFAULT_LIST_ID :: string where
  "DEFAULT_LIST_ID = ''_SECTION_HEADLINE_LIST_4aiik''"

record HeadlineItem =
  title :: string
  url :: string
  press :: "string option"
  datetime :: "string option"
  lede :: "string option"
  is_blind :: bool
  rank :: "int option"

text \<open>Python's \<open>a or b\<close> on optional strings: \<open>None\<close> and the empty string are false.\<close>

definition py_or :: "string option \<Rightarrow> string option \<Rightarrow> string option" where
  "py_or a b = (case a of None \<Rightarrow> b | Some s \<Rightarrow> if s = [] then b else Some s)"

definition pick_ul :: "node \<Rightarrow> string \<Rightarrow> loc option" where
  "pick_ul soup list_id =
     (case find_id ([], soup) list_id of
        Some ul \<Rightarrow> Some ul
      | None \<Rightarrow> (case select ([], soup) css_ul_prefix of
                   candidate # rest \<Rightarrow> Some candidate
                 | [] \<Rightarrow> None))"

definition iter_target_lis :: "loc \<Rightarrow> loc list" where
  "iter_target_lis ul = select ul css_li_target"

definition extract_text :: "loc option \<Rightarrow> string option" where
  "extract_text el =
     (case el of
        None \<Rightarrow> None
      | Some l \<Rightarrow> (let txt = get_text '' '' (snd l) in if txt = [] then None else Some txt))"

text \<open>
  \<open>urljoin\<close> of the standard library is a parameter \<open>uj\<close> of the model.
\<close>

definition parse_item :: "(string \<Rightarrow> string \<Rightarrow> string) \<Rightarrow> loc \<Rightarrow> string \<Rightarrow> HeadlineItem option" where
  "parse_item uj li base_url =
     (let blind = (''is_blind'' \<in> set (classes (snd li)));
          link = (case select_one li css_a_title_href of
                    Some l \<Rightarrow> Some l
                  | None \<Rightarrow> select_one li css_a_href)
      in case link of
           None \<Rightarrow> None
         | Some l \<Rightarrow>
             (case href (snd l) of
                None \<Rightarrow> None
              | Some h \<Rightarrow>
                  if h = [] then None
                  else Some \<lparr>
                    title = (case extract_text (Some l) of None \<Rightarrow> [] | Some t \<Rightarrow> t),
                    url = uj base_url h,
                    press = py_or (extract_text (select_one li (css_class ''sa_text_press'')))
                             (py_or (extract_text (select_one li (css_tag_in_class ''sa_text_press'' ''em'')))
                                    (extract_text (select_one li (css_tag_in_class ''sa_text_press'' ''span'')))),
                    datetime = py_or (extract_text (select_one li (css_class ''sa_text_datetime'')))
                             (py_or (extract_text (select_one li (css_class ''_SECTION_HEADLINE_LIST_TIME'')))
                                    (extract_text (select_one li (css_tag ''time'')))),
                    lede = py_or (extract_text (select_one li (css_class ''sa_text_lede'')))
                                 (extract_text (select_one li (css_class ''sa_text_lede_text''))),
                    is_blind = blind,
                    rank = None \<rparr>))"

text \<open>
  What a run does to the outside world is recorded as a log of events: acquiring the
  session or browser, loading a page, scrolling, sleeping, and releasing the session or
  browser.
\<close>

datatype event = Acquire | Load int | Scroll | Sleep | Release

datatype error =
    UlNotFound string  \<comment> \<open>the \<open>RuntimeError\<close> of \<open>crawl\<close>, with the \<open>list_id\<close> of its message\<close>
  | FetchFailed        \<comment> \<open>an exception of \<open>requests\<close> or of the browser driver\<close>
  | WaitTimeout        \<comment> \<open>\<open>TimeoutException\<close> of a \<open>WebDriverWait\<close>\<close>
  | SleepRejected      \<comment> \<open>\<open>ValueError\<close> or \<open>OverflowError\<close> of \<open>time.sleep\<close>\<close>

text \<open>
  A Python float is not a number (\<open>nan\<close>), infinite or finite; only comparisons are
  made on it, so a finite float is modelled by the real it denotes.
\<close>

datatype pyfloat = NaN | NegInf | Fin real | PosInf

fun float_gt :: "pyfloat \<Rightarrow> pyfloat \<Rightarrow> bool" where
  "float_gt NaN b = False"
| "float_gt a NaN = False"
| "float_gt NegInf b = False"
| "float_gt a NegInf = True"
| "float_gt a PosInf = False"
| "float_gt PosInf b = True"
| "float_gt (Fin x) (Fin y) = (x > y)"


definition float_max :: "pyfloat \<Rightarrow> pyfloat \<Rightarrow> pyfloat" where
  "float_max a b = (if float_gt b a then b else a)"

text \<open>
  \<open>time.sleep(s)\<close> returns for a finite duration that is not negative, and raises for a
  negative one, for \<open>nan\<close> and for an infinite one.
\<close>

fun sleep_ok :: "pyfloat \<Rightarrow> bool" where
  "sleep_ok (Fin x) = (0 \<le> x)"
| "sleep_ok s = False"

text \<open>The loop \<open>for li in lis\<close> of \<open>crawl\<close>, on the accumulator \<open>all_items\<close>.\<close>

fun crawl_lis :: "(string \<Rightarrow> string \<Rightarrow> string) \<Rightarrow> string \<Rightarrow> loc list \<Rightarrow> HeadlineItem list
                  \<Rightarrow> HeadlineItem list" where
  "crawl_lis uj section_url [] all_items = all_items"
| "crawl_lis uj section_url (li # lis) all_items =
     (case parse_item uj li section_url of
        None \<Rightarrow> crawl_lis uj section_url lis all_items
      | Some item \<Rightarrow>
          crawl_lis uj section_url lis
            (all_items @ [item\<lparr>rank := Some (int (length all_items) + 1)\<rparr>]))"

text \<open>
  The loop \<open>for page in range(1, pages + 1)\<close>. \<open>fetch page\<close> stands for
  \<open>BeautifulSoup(fetch_html(session, with_page(section_url, page)), "html.parser")\<close>:
  the parsed document the site answers with, or the exception of the request.
\<close>

fun crawl_pages :: "(int \<Rightarrow> error + node) \<Rightarrow> (string \<Rightarrow> string \<Rightarrow> string) \<Rightarrow> string \<Rightarrow> string
                    \<Rightarrow> int \<Rightarrow> pyfloat \<Rightarrow> int list \<Rightarrow> HeadlineItem list \<Rightarrow> event list
                    \<Rightarrow> event list \<times> (error + HeadlineItem list)" where
  "crawl_pages fetch uj section_url list_id pages sleep [] all_items evs = (evs, Inr all_items)"
| "crawl_pages fetch uj section_url list_id pages sleep (page # rest) all_items evs =
     (case fetch page of
        Inl e \<Rightarrow> (evs @ [Load page], Inl e)
      | Inr soup \<Rightarrow>
          (case pick_ul soup list_id of
             None \<Rightarrow> (evs @ [Load page], Inl (UlNotFound list_id))
           | Some ul \<Rightarrow>
               (let all_items' = crawl_lis uj section_url (iter_target_lis ul) all_items
                in if page < pages \<and> float_gt sleep (Fin 0)
                   then if sleep_ok sleep
                        then crawl_pages fetch uj section_url list_id pages sleep rest all_items'
                               (evs @ [Load page, Sleep])
                        else (evs @ [Load page], Inl SleepRejected)
                   else crawl_pages fetch uj section_url list_id pages sleep rest all_items'
                          (evs @ [Load page]))))"

text \<open>
  \<open>crawl\<close>. The session is built first; \<open>timeout\<close> only configures it, and \<open>debug\<close>
  only prints, so the model leaves \<open>debug\<close> out and does not use \<open>timeout\<close>.
\<close>

definition crawl :: "(int \<Rightarrow> error + node) \<Rightarrow> (string \<Rightarrow> string \<Rightarrow> string) \<Rightarrow> string \<Rightarrow> string
                     \<Rightarrow> int \<Rightarrow> pyfloat \<Rightarrow> pyfloat \<Rightarrow> event list \<times> (error + HeadlineItem list)" where
  "crawl fetch uj section_url list_id pages sleep timeout =
     crawl_pages fetch uj section_url list_id pages sleep [1..pages] [] [Acquire]"


section \<open>The visual (Selenium) crawler\<close>

text \<open>
  The browser's elements are remote objects; a list item is modelled by what the calls
  made on it answer: the \<open>class\<close> attribute, the element found for \<open>a.sa_text_title\<close>
  and for \<open>a[href]\<close> (\<open>None\<close> when \<open>find_element\<close> raises \<open>NoSuchElementException\<close>),
  and the \<open>.text\<close> of the element found for each field selector.
\<close>

record anchor =
  a_text :: string
  a_href :: "string option"

record visual_li =
  li_class :: "string option"
  li_a_title :: "anchor option"
  li_a_href :: "anchor option"
  li_press :: "string option"
  li_lede :: "string option"
  li_datetime :: "string option"
  li_list_time :: "string option"

text \<open>
  A page: \<open>driver.get\<close> raises, or the page loads; then \<open>waited\<close> tells whether the
  \<open>WebDriverWait\<close> for the list saw it before the timeout, and \<open>page_ul\<close> is the list
  items \<open>find_elements\<close> returns under the list \<open>find_element\<close> returns (\<open>None\<close> when it
  raises \<open>NoSuchElementException\<close>).
\<close>

datatype visual_page = GetFails | Page (waited: bool) (page_ul: "visual_li list option")

text \<open>The items of the visual crawler: \<open>url\<close> is what \<open>get_attribute("href")\<close> returned.\<close>

record VisualItem =
  v_title :: string
  v_url :: "string option"
  v_press :: "string option"
  v_datetime :: "string option"
  v_lede :: "string option"
  v_is_blind :: bool
  v_rank :: "int option"

definition extract_text_visual :: "string option \<Rightarrow> string option" where
  "extract_text_visual found =
     (case found of
        None \<Rightarrow> None
      | Some t \<Rightarrow> if strip t = [] then None else Some (strip t))"

text \<open>The body of the loop over the list items; \<open>None\<close> when an exception is caught.\<close>

definition visual_item :: "visual_li \<Rightarrow> nat \<Rightarrow> VisualItem option" where
  "visual_item li n =
     (let blind = (case li_class li of
                     None \<Rightarrow> False
                   | Some cls \<Rightarrow> if cls = [] then False else contains cls ''is_blind'');
          a_tag = (case li_a_title li of Some a \<Rightarrow> Some a | None \<Rightarrow> li_a_href li)
      in case a_tag of
           None \<Rightarrow> None
         | Some a \<Rightarrow>
             Some \<lparr> v_title = strip (a_text a),
                    v_url = a_href a,
                    v_press = extract_text_visual (li_press li),
                    v_datetime = (case extract_text_visual (li_datetime li) of
                                    None \<Rightarrow> extract_text_visual (li_list_time li)
                                  | Some d \<Rightarrow> Some d),
                    v_lede = extract_text_visual (li_lede li),
                    v_is_blind = blind,
                    v_rank = Some (int n + 1) \<rparr>)"

fun visual_lis :: "visual_li list \<Rightarrow> VisualItem list \<Rightarrow> VisualItem list" where
  "visual_lis [] all_items = all_items"
| "visual_lis (li # lis) all_items =
     (case visual_item li (length all_items) of
        None \<Rightarrow> visual_lis lis all_items
      | Some item \<Rightarrow> visual_lis lis (all_items @ [item]))"

fun visual_pages :: "(int \<Rightarrow> visual_page) \<Rightarrow> pyfloat \<Rightarrow> int list \<Rightarrow> VisualItem list \<Rightarrow> event list
                     \<Rightarrow> event list \<times> (error + VisualItem list)" where
  "visual_pages browser sleep [] all_items evs = (evs, Inr all_items)"
| "visual_pages browser sleep (page # rest) all_items evs =
     (case browser page of
        GetFails \<Rightarrow> (evs @ [Load page], Inl FetchFailed)
      | Page found ul \<Rightarrow>
          if \<not> found then visual_pages browser sleep rest all_items (evs @ [Load page])
          else (case ul of
                  None \<Rightarrow> visual_pages browser sleep rest all_items (evs @ [Load page])
                | Some lis \<Rightarrow>
                    if sleep_ok sleep
                    then visual_pages browser sleep rest (visual_lis lis all_items)
                           (evs @ [Load page, Sleep])
                    else (evs @ [Load page], Inl SleepRejected)))"

text \<open>
  \<open>crawl_visual\<close>: \<open>build_driver\<close> returns the driver (\<open>built\<close>) or raises; then the
  loop runs inside \<open>try\<close>, and \<open>finally\<close> quits the driver.
\<close>

definition crawl_visual :: "bool \<Rightarrow> (int \<Rightarrow> visual_page) \<Rightarrow> int \<Rightarrow> pyfloat
                            \<Rightarrow> event list \<times> (error + VisualItem list)" where
  "crawl_visual built browser pages sleep =
     (if \<not> built then ([], Inl FetchFailed)
      else (case visual_pages browser sleep [1..pages] [] [Acquire] of
              (evs, r) \<Rightarrow> (evs @ [Release], r)))"

section \<open>The scroll crawler\<close>

record LiItem =
  idx :: int
  item_text :: string
  outer_html :: string

text \<open>
  What the browser answers during one run. \<open>build\<close>: starting Chrome fails, or Chrome
  starts and the command \<open>build_driver\<close> sends to it afterwards fails, or the driver is
  returned. \<open>locate k\<close>: whether the wait for the CSS selector and the wait for the XPath
  found the list, in the \<open>k\<close>-th call of \<open>locate_ul\<close>. \<open>polls i\<close>: the counts read in
  scroll step \<open>i\<close> while the clock was before the deadline (\<open>None\<close> when \<open>find_elements\<close>
  raised \<open>WebDriverException\<close>). \<open>final_lis\<close>: the \<open>li\<close> elements \<open>find_elements\<close>
  returns in the last pass, each with its \<open>.text\<close> and its \<open>outerHTML\<close> attribute.
\<close>

datatype build_result = ChromeFails | CommandFails | Built

datatype ul_handle = ByCss | ByXpath

record li_elem =
  elem_text :: string
  elem_outer :: "string option"

record scroll_env =
  build :: build_result
  get_ok :: bool
  ready :: bool
  locate :: "nat \<Rightarrow> bool \<times> bool"
  initial_count :: "nat option"
  polls :: "nat \<Rightarrow> nat option list"
  final_lis :: "li_elem list"

definition locate_ul :: "bool \<times> bool \<Rightarrow> ul_handle option" where
  "locate_ul found =
     (if fst found then Some ByCss else if snd found then Some ByXpath else None)"

definition li_count_under_ul :: "nat option \<Rightarrow> nat" where
  "li_count_under_ul counted = (case counted of None \<Rightarrow> 0 | Some n \<Rightarrow> n)"

text \<open>
  The loop \<open>while time.time() < end_t\<close>: it returns the new \<open>prev_count\<close> and the
  number of its 0.2 second sleeps.
\<close>

fun poll :: "nat \<Rightarrow> nat option list \<Rightarrow> nat \<times> nat" where
  "poll prev_count [] = (prev_count, 0)"
| "poll prev_count (c # cs) =
     (let cur_count = li_count_under_ul c
      in if cur_count > prev_count then (cur_count, 0)
         else (case poll prev_count cs of (p, k) \<Rightarrow> (p, Suc k)))"

text \<open>The loop \<open>for i in range(scrolls)\<close>.\<close>

fun scroll_steps :: "scroll_env \<Rightarrow> pyfloat \<Rightarrow> nat list \<Rightarrow> nat \<Rightarrow> event list
                     \<Rightarrow> event list \<times> (error + nat)" where
  "scroll_steps env wait_sec [] prev_count evs = (evs, Inr prev_count)"
| "scroll_steps env wait_sec (i # rest) prev_count evs =
     (if \<not> sleep_ok (float_max (Fin (1 / 10)) wait_sec) then (evs @ [Scroll], Inl SleepRejected)
      else (case locate_ul (locate env (Suc i)) of
              None \<Rightarrow> (evs @ [Scroll, Sleep], Inl WaitTimeout)
            | Some ul \<Rightarrow>
                (case poll prev_count (polls env i) of
                   (prev_count', k) \<Rightarrow>
                     scroll_steps env wait_sec rest prev_count'
                       (evs @ [Scroll, Sleep] @ replicate k Sleep))))"

text \<open>The last pass: \<open>enumerate(li_elems, start=1)\<close>.\<close>

fun li_items :: "int \<Rightarrow> li_elem list \<Rightarrow> LiItem list" where
  "li_items n [] = []"
| "li_items n (li # lis) =
     \<lparr> idx = n, item_text = strip (elem_text li),
       outer_html = (case elem_outer li of None \<Rightarrow> [] | Some h \<Rightarrow> h) \<rparr> # li_items (n + 1) lis"

text \<open>The body of the \<open>try\<close> block, after \<open>build_driver\<close> has returned.\<close>

definition scroll_body :: "scroll_env \<Rightarrow> int \<Rightarrow> pyfloat \<Rightarrow> event list \<times> (error + LiItem list)" where
  "scroll_body env scrolls wait_sec =
     (if \<not> get_ok env then ([Acquire, Load 1], Inl FetchFailed)
      else if \<not> ready env then ([Acquire, Load 1], Inl WaitTimeout)
      else (case locate_ul (locate env 0) of
              None \<Rightarrow> ([Acquire, Load 1], Inl WaitTimeout)
            | Some ul \<Rightarrow>
                (case scroll_steps env wait_sec [0..<nat scrolls]
                        (li_count_under_ul (initial_count env)) [Acquire, Load 1] of
                   (evs, Inl e) \<Rightarrow> (evs, Inl e)
                 | (evs, Inr prev_count) \<Rightarrow>
                     (case locate_ul (locate env (Suc (nat scrolls))) of
                        None \<Rightarrow> (evs, Inl WaitTimeout)
                      | Some ul' \<Rightarrow> (evs, Inr (li_items 1 (final_lis env)))))))"

text \<open>
  \<open>crawl\<close> of the scroll crawler: \<open>finally\<close> quits the driver when the variable
  \<open>driver\<close> is set, that is when \<open>build_driver\<close> returned.
\<close>

definition crawl_scroll :: "scroll_env \<Rightarrow> int \<Rightarrow> pyfloat \<Rightarrow> pyfloat
                            \<Rightarrow> event list \<times> (error + LiItem list)" where
  "crawl_scroll env scrolls wait_sec timeout =
     (case build env of
        ChromeFails \<Rightarrow> ([], Inl FetchFailed)
      | CommandFails \<Rightarrow> ([Acquire], Inl FetchFailed)
      | Built \<Rightarrow> (case scroll_body env scrolls wait_sec of (evs, r) \<Rightarrow> (evs @ [Release], r)))"


section \<open>Reading a log\<close>

text \<open>The pages a log shows as loaded, in order.\<close>

fun loads :: "event list \<Rightarrow> int list" where
  "loads [] = []"
| "loads (Load page # evs) = page # loads evs"
| "loads (e # evs) = loads evs"

section \<open>The locator as the specification words it\<close>

text \<open>The first node of a document, in document order, that satisfies a predicate.\<close>

definition first_in_document :: "(node \<Rightarrow> bool) \<Rightarrow> node \<Rightarrow> loc option" where
  "first_in_document P document = List.find (\<lambda>l. P (snd l)) (descendants [] document)"

fun has_id_prefix :: "string \<Rightarrow> node \<Rightarrow> bool" where
  "has_id_prefix p (Text s) = False"
| "has_id_prefix p (Elem t i c h ks) = (case i of None \<Rightarrow> False | Some v \<Rightarrow> startswith v p)"

text \<open>
  \<open>locate(document, primary_id, prefix_pattern)\<close> of the specification: the node whose
  identifier equals \<open>primary_id\<close>, otherwise the first node whose identifier starts with
  \<open>prefix_pattern\<close>, otherwise no node.
\<close>

definition spec_locate :: "node \<Rightarrow> string \<Rightarrow> string \<Rightarrow> loc option" where
  "spec_locate document primary_id prefix_pattern =
     (case first_in_document (\<lambda>n. is_tag n \<and> ident n = Some primary_id) document of
        Some l \<Rightarrow> Some l
      | None \<Rightarrow> first_in_document (has_id_prefix prefix_pattern) document)"

text \<open>
  \<open>filter(container)\<close> of the specification: the child nodes of the container whose
  class set contains \<open>sa_item\<close> and \<open>_SECTION_HEADLINE\<close>.
\<close>

definition spec_filter :: "node \<Rightarrow> node list" where
  "spec_filter container =
     filter (\<lambda>k. is_tag k \<and> list_all (\<lambda>c. c \<in> set (classes k)) [''sa_item'', ''_SECTION_HEADLINE''])
            (contents container)"





section \<open>Example documents\<close>

text \<open>A stand-in for \<open>urljoin\<close> on the examples: the href is appended to the base.\<close>

definition ex_urljoin :: "string \<Rightarrow> string \<Rightarrow> string" where
  "ex_urljoin base h = base @ h"

text \<open>\<open><li class="sa_item _SECTION_HEADLINE"><a class="sa_text_title" href="/a"> Headline </a></li>\<close>\<close>

definition ex_li :: node where
  "ex_li = Elem ''li'' None [''sa_item'', ''_SECTION_HEADLINE''] None
             [Elem ''a'' None [''sa_text_title''] (Some ''/a'') [Text '' Headline '']]"

text \<open>The same item without a link: \<open><li class="sa_item _SECTION_HEADLINE"><span>Headline</span></li>\<close>\<close>

definition ex_li_unlinked :: node where
  "ex_li_unlinked = Elem ''li'' None [''sa_item'', ''_SECTION_HEADLINE''] None
                      [Elem ''span'' None [] None [Text ''Headline'']]"

text \<open>A document whose body is one list \<open><ul id=...>\<close> with the given items.\<close>

definition ex_doc :: "string \<Rightarrow> node list \<Rightarrow> node" where
  "ex_doc list_id lis = Elem ''[document]'' None [] None [Elem ''ul'' (Some list_id) [] None lis]"

text \<open>A site of two pages, with three and with two items.\<close>

definition ex_site :: "int \<Rightarrow> error + node" where
  "ex_site page =
     (if page = 1 then Inr (ex_doc DEFAULT_LIST_ID [ex_li, ex_li, ex_li])
      else if page = 2 then Inr (ex_doc DEFAULT_LIST_ID [ex_li, ex_li])
      else Inl FetchFailed)"

text \<open>A page of five items, the third one without a link.\<close>

definition ex_site_unlinked :: "int \<Rightarrow> error + node" where
  "ex_site_unlinked page =
     Inr (ex_doc DEFAULT_LIST_ID [ex_li, ex_li, ex_li_unlinked, ex_li, ex_li])"

text \<open>
  A document without the default list id, whose list is found by the prefix of its id;
  and a document in which the only node with such an id is a \<open>div\<close>.
\<close>

definition ex_doc_fallback :: node where
  "ex_doc_fallback = ex_doc ''_SECTION_HEADLINE_LIST_4aiik2'' [ex_li]"

definition ex_div_list :: node where
  "ex_div_list = Elem ''div'' (Some ''_SECTION_HEADLINE_LIST_4aiik2'') [] None [ex_li]"

definition ex_doc_div :: node where
  "ex_doc_div = Elem ''[document]'' None [] None [ex_div_list]"




text \<open>
  A list with a blind item, an item that has only the class \<open>sa_item\<close>, and a plain
  item; a list whose child with the two classes is a \<open>div\<close>; and a list whose item
  with the two classes sits in an inner list.
\<close>

definition ex_li_blind :: node where
  "ex_li_blind = Elem ''li'' None [''sa_item'', ''_SECTION_HEADLINE'', ''is_blind''] None
                   [Elem ''a'' None [''sa_text_title''] (Some ''/b'') [Text ''Hidden'']]"

definition ex_li_other :: node where
  "ex_li_other = Elem ''li'' None [''sa_item''] None
                   [Elem ''a'' None [''sa_text_title''] (Some ''/c'') [Text ''Other'']]"

definition ex_ul_mixed :: node where
  "ex_ul_mixed = Elem ''ul'' (Some DEFAULT_LIST_ID) [] None [ex_li_blind, ex_li_other, ex_li]"

definition ex_div_item :: node where
  "ex_div_item = Elem ''div'' None [''sa_item'', ''_SECTION_HEADLINE''] None
                   [Elem ''a'' None [''sa_text_title''] (Some ''/d'') [Text ''Division'']]"

definition ex_ul_div :: node where
  "ex_ul_div = Elem ''ul'' (Some DEFAULT_LIST_ID) [] None [ex_div_item]"

definition ex_ul_nested :: node where
  "ex_ul_nested = Elem ''ul'' (Some DEFAULT_LIST_ID) [] None
                    [Elem ''li'' None [] None [Elem ''ul'' None [] None [ex_li]]]"




text \<open>
  A run of the scroll crawler: the list is found by the XPath in step 1 and by the CSS
  selector otherwise; the first count is 3; the polls of the first step never see more
  than 3 items before the deadline, those of the second step see 5 at the second poll;
  the last pass finds two items.
\<close>

definition ex_scroll_env :: scroll_env where
  "ex_scroll_env = \<lparr> build = Built, get_ok = True, ready = True,
                       locate = (\<lambda>k. (k \<noteq> 1, True)),
                       initial_count = Some 3,
                       polls = (\<lambda>i. if i = 0 then [Some 3, None, Some 3] else [Some 3, Some 5]),
                       final_lis = [\<lparr> elem_text = '' first '', elem_outer = Some ''<li>first</li>'' \<rparr>,
                                    \<lparr> elem_text = ''second'', elem_outer = None \<rparr>] \<rparr>"

text \<open>A browser in which every \<open>driver.get\<close> raises.\<close>

definition ex_browser_down :: "int \<Rightarrow> visual_page" where
  "ex_browser_down page = GetFails"

section \<open>Ranks of the requests crawler\<close>

text \<open>The ranks of a list of items are 1, 2, ... in order.\<close>

definition ranked :: "HeadlineItem list \<Rightarrow> bool" where
  "ranked items = (map rank items = map (\<lambda>i. Some (int i + 1)) [0..<length items])"

lemma ranked_Nil: "ranked []"
  by (simp add: ranked_def)

lemma ranked_snoc:
  "ranked items \<Longrightarrow> ranked (items @ [item\<lparr>rank := Some (int (length items) + 1)\<rparr>])"
  by (simp add: ranked_def)

lemma crawl_lis_ranked:
  "ranked all_items \<Longrightarrow> ranked (crawl_lis uj section_url lis all_items)"
proof (induction lis arbitrary: all_items)
  case Nil
  then show ?case by simp
next
  case (Cons li lis)
  show ?case
  proof (cases "parse_item uj li section_url")
    case None
    then show ?thesis using Cons by simp
  next
    case (Some item)
    then show ?thesis using Cons.IH [OF ranked_snoc [OF Cons.prems]] by simp
  qed
qed

lemma crawl_pages_ranked:
  "ranked all_items \<Longrightarrow>
   snd (crawl_pages fetch uj section_url list_id pages sleep ps all_items evs) = Inr items \<Longrightarrow>
   ranked items"
proof (induction ps arbitrary: all_items evs)
  case Nil
  then show ?case by simp
next
  case (Cons page rest)
  then show ?case
    by (auto simp: Let_def split: sum.splits option.splits if_splits intro: crawl_lis_ranked)
qed

text \<open>
  C1. Whenever the requests crawler returns, the ranks of the items it returns are
  1, 2, ..., N in order, over all pages of the run: each accepted item gets the number
  of items accepted before it plus one, and nothing resets the count between pages.
\<close>

theorem crawl_ranks_consecutive:
  assumes "snd (crawl fetch uj section_url list_id pages sleep timeout) = Inr items"
  shows "map rank items = map (\<lambda>i. Some (int i + 1)) [0..<length items]"
proof -
  have "ranked items"
    using assms crawl_pages_ranked [OF ranked_Nil] by (simp add: crawl_def)
  then show ?thesis by (simp add: ranked_def)
qed

theorem crawl_ranks_consecutive_witness:
  "map rank (projr (snd (crawl ex_site ex_urljoin DEFAULT_SECTION_URL DEFAULT_LIST_ID 2 (Fin 0) (Fin 10))))
     = [Some 1, Some 2, Some 3, Some 4, Some 5]"
proof -
  let ?r = "snd (crawl ex_site ex_urljoin DEFAULT_SECTION_URL DEFAULT_LIST_ID 2 (Fin 0) (Fin 10))"
  have run: "?r = Inr (projr ?r)" by code_simp
  have len: "length (projr ?r) = 5" by code_simp
  have "[0..<5] = [0, 1, 2, 3, 4]" by code_simp
  then show ?thesis
    using crawl_ranks_consecutive [OF run] by (simp add: len)
qed

section \<open>Items without a link\<close>

lemma crawl_lis_append:
  "crawl_lis uj section_url (xs @ ys) all_items
     = crawl_lis uj section_url ys (crawl_lis uj section_url xs all_items)"
  by (induction xs arbitrary: all_items) (auto split: option.splits)

text \<open>
  C2. A list item in which neither \<open>a.sa_text_title[href]\<close> nor \<open>a[href]\<close> selects an
  element gives no record, and the loop over the items behaves as if the item were not
  in the list: the items after it get the ranks they would have had without it.
\<close>

theorem unlinked_item_dropped:
  assumes "select_one li css_a_title_href = None" and "select_one li css_a_href = None"
  shows "parse_item uj li base_url = None
         \<and> crawl_lis uj base_url (before @ li # after) all_items
             = crawl_lis uj base_url (before @ after) all_items"
proof -
  have none: "parse_item uj li base_url = None"
    using assms by (simp add: parse_item_def)
  then have "crawl_lis uj base_url (li # after) acc = crawl_lis uj base_url after acc" for acc
    by simp
  then show ?thesis
    using none by (simp add: crawl_lis_append)
qed

text \<open>On a page of five items of which one has no link, four records come out, ranked 1 to 4.\<close>

theorem unlinked_item_dropped_witness:
  "parse_item ex_urljoin ([], ex_li_unlinked) DEFAULT_SECTION_URL = None
   \<and> crawl_lis ex_urljoin DEFAULT_SECTION_URL ([([], ex_li)] @ ([], ex_li_unlinked) # [([], ex_li)]) []
       = crawl_lis ex_urljoin DEFAULT_SECTION_URL ([([], ex_li)] @ [([], ex_li)]) []
   \<and> map rank (projr (snd (crawl ex_site_unlinked ex_urljoin DEFAULT_SECTION_URL DEFAULT_LIST_ID 1
                               (Fin 0) (Fin 10))))
       = [Some 1, Some 2, Some 3, Some 4]"
proof -
  have h1: "select_one ([], ex_li_unlinked) css_a_title_href = None" by code_simp
  have h2: "select_one ([], ex_li_unlinked) css_a_href = None" by code_simp
  have run: "map rank (projr (snd (crawl ex_site_unlinked ex_urljoin DEFAULT_SECTION_URL
                 DEFAULT_LIST_ID 1 (Fin 0) (Fin 10)))) = [Some 1, Some 2, Some 3, Some 4]"
    by code_simp
  show ?thesis
    using unlinked_item_dropped [OF h1 h2, of ex_urljoin DEFAULT_SECTION_URL
            "[([], ex_li)]" "[([], ex_li)]" "[]"] run
    by blast
qed

section \<open>The container locator\<close>

lemma find_as_filter:
  "(case filter P xs of [] \<Rightarrow> None | x # rest \<Rightarrow> Some x) = List.find P xs"
  by (induction xs) auto

lemma match_css_ul_prefix:
  "match_selector css_ul_prefix
     = (\<lambda>l. is_tag (snd l) \<and> tag (snd l) = ''ul'' \<and> has_id_prefix ''_SECTION_HEADLINE_LIST_'' (snd l))"
proof (rule ext)
  fix l :: loc
  show "match_selector css_ul_prefix l
     = (is_tag (snd l) \<and> tag (snd l) = ''ul'' \<and> has_id_prefix ''_SECTION_HEADLINE_LIST_'' (snd l))"
    by (cases l; cases "snd l") (auto simp: css_ul_prefix_def split: option.splits)
qed

text \<open>
  C3, as amended. For a list id that is not empty, \<open>pick_ul\<close> returns the first tag of
  the document whose id equals the list id when there is one; otherwise the first
  \<open>ul\<close> tag, in document order, whose id starts with \<open>_SECTION_HEADLINE_LIST_\<close>;
  and no node when there is neither. The fallback looks at \<open>ul\<close> tags only.
\<close>

theorem pick_ul_first_match:
  assumes "list_id \<noteq> []"
  shows "pick_ul soup list_id =
     (case first_in_document (\<lambda>n. is_tag n \<and> ident n = Some list_id) soup of
        Some l \<Rightarrow> Some l
      | None \<Rightarrow>
          first_in_document
            (\<lambda>n. is_tag n \<and> tag n = ''ul'' \<and> has_id_prefix ''_SECTION_HEADLINE_LIST_'' n) soup)"
proof -
  have by_id: "find_id ([], soup) list_id
                 = first_in_document (\<lambda>n. is_tag n \<and> ident n = Some list_id) soup"
    by (simp add: find_id_def first_in_document_def)
  have "(case select ([], soup) css_ul_prefix of candidate # rest \<Rightarrow> Some candidate | [] \<Rightarrow> None)
          = first_in_document
              (\<lambda>n. is_tag n \<and> tag n = ''ul'' \<and> has_id_prefix ''_SECTION_HEADLINE_LIST_'' n) soup"
    using find_as_filter [of "match_selector css_ul_prefix" "descendants [] soup"]
    unfolding select_def first_in_document_def match_css_ul_prefix
    by (simp split: list.splits)
  then show ?thesis
    by (simp only: pick_ul_def by_id)
qed

theorem pick_ul_first_match_witness:
  "DEFAULT_LIST_ID \<noteq> []
   \<and> pick_ul ex_doc_fallback DEFAULT_LIST_ID
       = Some ([ex_doc_fallback], Elem ''ul'' (Some ''_SECTION_HEADLINE_LIST_4aiik2'') [] None [ex_li])"
proof -
  have ne: "DEFAULT_LIST_ID \<noteq> []"
    by (simp add: DEFAULT_LIST_ID_def)
  have "first_in_document (\<lambda>n. is_tag n \<and> ident n = Some DEFAULT_LIST_ID) ex_doc_fallback = None"
    by code_simp
  moreover have "first_in_document
            (\<lambda>n. is_tag n \<and> tag n = ''ul'' \<and> has_id_prefix ''_SECTION_HEADLINE_LIST_'' n) ex_doc_fallback
     = Some ([ex_doc_fallback], Elem ''ul'' (Some ''_SECTION_HEADLINE_LIST_4aiik2'') [] None [ex_li])"
    by code_simp
  ultimately show ?thesis
    using pick_ul_first_match [OF ne, of ex_doc_fallback] ne by simp
qed

text \<open>
  The claim as worded fails where the only node whose id starts with the prefix is not a
  \<open>ul\<close>: the specification's locator returns that node, \<open>pick_ul\<close> returns none.
\<close>

theorem pick_ul_prefix_counterexample:
  "pick_ul ex_doc_div DEFAULT_LIST_ID = None
   \<and> spec_locate ex_doc_div DEFAULT_LIST_ID ''_SECTION_HEADLINE_LIST_'' = Some ([ex_doc_div], ex_div_list)"
  by code_simp

section \<open>A page without the list\<close>






section \<open>The item filter\<close>

lemma match_css_li_target:
  "match_selector css_li_target
     = (\<lambda>l. is_tag (snd l) \<and> tag (snd l) = ''li''
              \<and> {''sa_item'', ''_SECTION_HEADLINE''} \<subseteq> set (classes (snd l)))"
proof (rule ext)
  fix l :: loc
  show "match_selector css_li_target l
     = (is_tag (snd l) \<and> tag (snd l) = ''li''
              \<and> {''sa_item'', ''_SECTION_HEADLINE''} \<subseteq> set (classes (snd l)))"
    by (cases l; cases "snd l") (auto simp: css_li_target_def)
qed

text \<open>
  C5, as amended. \<open>iter_target_lis\<close> yields exactly the \<open>li\<close> tags below the
  container, at any depth, whose class list contains \<open>sa_item\<close> and
  \<open>_SECTION_HEADLINE\<close>, in document order; and the \<open>is_blind\<close> flag of a parsed
  item tells whether its class list contains \<open>is_blind\<close>.
\<close>

theorem iter_target_lis_exact:
  "iter_target_lis ul
     = filter (\<lambda>l. is_tag (snd l) \<and> tag (snd l) = ''li''
                    \<and> {''sa_item'', ''_SECTION_HEADLINE''} \<subseteq> set (classes (snd l)))
              (descendants (fst ul) (snd ul))
   \<and> (parse_item uj li base_url = Some item
        \<longrightarrow> is_blind item = (''is_blind'' \<in> set (classes (snd li))))"
proof -
  have "is_blind item = (''is_blind'' \<in> set (classes (snd li)))"
    if "parse_item uj li base_url = Some item"
    using that by (auto simp: parse_item_def Let_def split: option.splits if_splits)
  then show ?thesis
    by (simp add: iter_target_lis_def select_def match_css_li_target)
qed

text \<open>
  An item with the classes \<open>sa_item\<close>, \<open>_SECTION_HEADLINE\<close> and \<open>is_blind\<close> is
  included and flagged, one with \<open>sa_item\<close> only is left out, one with exactly the two
  classes is included and not flagged.
\<close>

theorem iter_target_lis_exact_witness:
  "map snd (iter_target_lis ([], ex_ul_mixed)) = [ex_li_blind, ex_li]
   \<and> is_blind (the (parse_item ex_urljoin ([ex_ul_mixed], ex_li_blind) DEFAULT_SECTION_URL)) = True
   \<and> is_blind (the (parse_item ex_urljoin ([ex_ul_mixed], ex_li) DEFAULT_SECTION_URL)) = False"
proof -
  let ?blind = "([ex_ul_mixed], ex_li_blind)" and ?plain = "([ex_ul_mixed], ex_li)"
  have sel: "map snd (filter (\<lambda>l. is_tag (snd l) \<and> tag (snd l) = ''li''
                    \<and> {''sa_item'', ''_SECTION_HEADLINE''} \<subseteq> set (classes (snd l)))
              (descendants (fst ([], ex_ul_mixed)) (snd ([], ex_ul_mixed)))) = [ex_li_blind, ex_li]"
    by code_simp
  have p1: "parse_item ex_urljoin ?blind DEFAULT_SECTION_URL
              = Some (the (parse_item ex_urljoin ?blind DEFAULT_SECTION_URL))"
    by code_simp
  have p2: "parse_item ex_urljoin ?plain DEFAULT_SECTION_URL
              = Some (the (parse_item ex_urljoin ?plain DEFAULT_SECTION_URL))"
    by code_simp
  have c1: "(''is_blind'' \<in> set (classes (snd ?blind))) = True" by code_simp
  have c2: "(''is_blind'' \<in> set (classes (snd ?plain))) = False" by code_simp
  note fact = iter_target_lis_exact [of "([], ex_ul_mixed)" ex_urljoin]
  have items: "map snd (iter_target_lis ([], ex_ul_mixed)) = [ex_li_blind, ex_li]"
    using fact [THEN conjunct1] sel by (simp only:)
  have b1: "is_blind (the (parse_item ex_urljoin ?blind DEFAULT_SECTION_URL)) = True"
    using fact [THEN conjunct2, THEN mp, OF p1] c1 by (simp only:)
  have b2: "is_blind (the (parse_item ex_urljoin ?plain DEFAULT_SECTION_URL)) = False"
    using fact [THEN conjunct2, THEN mp, OF p2] c2 by (simp only:)
  show ?thesis
    using items b1 b2 by (intro conjI)
qed

text \<open>
  The claim as worded speaks of the child nodes of the container: a child that is not
  an \<open>li\<close> is a child with the two classes that is not yielded, and an \<open>li\<close> of an
  inner list is yielded without being a child.
\<close>

theorem iter_target_lis_children_counterexample:
  "map snd (iter_target_lis ([], ex_ul_div)) = [] \<and> spec_filter ex_ul_div = [ex_div_item]
   \<and> map snd (iter_target_lis ([], ex_ul_nested)) = [ex_li] \<and> spec_filter ex_ul_nested = []"
  by code_simp

section \<open>Stripped text\<close>







section \<open>Titles\<close>










section \<open>The field extractor\<close>








section \<open>The scroll crawler: a step without growth\<close>





section \<open>Releasing the session or browser\<close>

lemma crawl_pages_no_release:
  assumes "Release \<notin> set evs"
  shows "Release \<notin> set (fst (crawl_pages fetch uj section_url list_id pages sleep ps all_items evs))"
  using assms
proof (induction ps arbitrary: all_items evs)
  case Nil
  then show ?case by simp
next
  case (Cons page rest)
  have 1: "Release \<notin> set (evs @ [Load page, Sleep])" and 2: "Release \<notin> set (evs @ [Load page])"
    using Cons.prems by simp_all
  show ?case
    using Cons.IH [OF 1] Cons.IH [OF 2] 2
    by (simp add: Let_def split: sum.splits option.splits)
qed

text \<open>
  C9, as amended. In the visual crawler and in the scroll crawler, once
  \<open>build_driver\<close> has returned the driver, the last thing a run does is to quit it,
  whether the run returns items or ends in an error. The requests crawler never closes
  its session.
\<close>

theorem driver_released:
  "(built \<longrightarrow> last (fst (crawl_visual built browser pages sleep)) = Release)
   \<and> (build env = Built \<longrightarrow> last (fst (crawl_scroll env scrolls wait_sec timeout)) = Release)
   \<and> Release \<notin> set (fst (crawl fetch uj section_url list_id rpages rsleep rtimeout))"
proof -
  have "last (fst (crawl_visual built browser pages sleep)) = Release" if built
    using that by (simp add: crawl_visual_def split: prod.splits)
  moreover have "last (fst (crawl_scroll env scrolls wait_sec timeout)) = Release"
    if "build env = Built"
    using that by (simp add: crawl_scroll_def split: prod.splits)
  moreover have "Release \<notin> set (fst (crawl fetch uj section_url list_id rpages rsleep rtimeout))"
    unfolding crawl_def by (rule crawl_pages_no_release) simp
  ultimately show ?thesis by blast
qed

theorem driver_released_witness:
  "fst (crawl_visual True ex_browser_down 1 (Fin 2)) = [Acquire, Load 1, Release]
   \<and> last (fst (crawl_visual True ex_browser_down 1 (Fin 2))) = Release
   \<and> last (fst (crawl_scroll ex_scroll_env 2 (Fin (9 / 10)) (Fin 12))) = Release"
proof -
  have b: "build ex_scroll_env = Built" by (simp add: ex_scroll_env_def)
  note fact = driver_released [of True ex_browser_down 1 "Fin 2" ex_scroll_env 2 "Fin (9 / 10)" "Fin 12"]
  have "fst (crawl_visual True ex_browser_down 1 (Fin 2)) = [Acquire, Load 1, Release]"
    by code_simp
  moreover have "last (fst (crawl_visual True ex_browser_down 1 (Fin 2))) = Release"
    using fact [THEN conjunct1] by simp
  moreover have "last (fst (crawl_scroll ex_scroll_env 2 (Fin (9 / 10)) (Fin 12))) = Release"
    using fact [THEN conjunct2, THEN conjunct1, THEN mp, OF b] .
  ultimately show ?thesis by (intro conjI)
qed

text \<open>
  The claim as worded fails on the requests crawler: a run that returns its items has
  built a session and loaded two pages, and has released nothing.
\<close>

theorem session_not_closed_counterexample:
  "fst (crawl ex_site ex_urljoin DEFAULT_SECTION_URL DEFAULT_LIST_ID 2 (Fin 0) (Fin 10))
     = [Acquire, Load 1, Load 2]
   \<and> \<not> isl (snd (crawl ex_site ex_urljoin DEFAULT_SECTION_URL DEFAULT_LIST_ID 2 (Fin 0) (Fin 10)))"
  by code_simp

section \<open>The command line\<close>


lemma loads_append: "loads (xs @ ys) = loads xs @ loads ys"
  by (induction xs rule: loads.induct) auto




end
